theory Spec2Isabelle
  imports Complex_Main "HOL-Library.Char_ord"
begin

section \<open>Python values, documents and exceptions\<close>

text \<open>
  The script \<^verbatim>\<open>backend/setup_vector_search.py\<close> consists of one function,
  \<^verbatim>\<open>setup_vector_search_indexes\<close>. It builds three index definitions as dictionary
  literals, fetches one document of the collection \<^verbatim>\<open>medical_embeddings\<close>, tries to read
  the length of the embedding stored there, writes that length into two of the three
  definitions and returns all three in a dictionary.

  Values that can be stored in a document, or that \<^verbatim>\<open>ast.literal_eval\<close> can return, are
  modelled by \<open>pyval\<close>. A float is represented by the real number it denotes; the script never
  computes with the elements of an embedding, it only counts them. \<open>POpaque\<close> stands for
  any value without a length that is not a string (an ObjectId, a date, a complex number).
\<close>

datatype pyval =
    PNone
  | PBool bool
  | PInt int
  | PFloat real
  | PStr string
  | PBytes string
  | PList "pyval list"
  | PTuple "pyval list"
  | PSet "pyval list"
  | PDict "(pyval \<times> pyval) list"
  | POpaque string

text \<open>
  A dictionary with string keys, in insertion order. A document returned by the database
  driver and every dictionary literal of the script is of this kind.
\<close>

type_synonym pydict = "(string \<times> pyval) list"

type_synonym document = pydict

text \<open>
  The exceptions that can occur inside the \<^verbatim>\<open>try\<close> block. \<open>LiteralEvalError\<close> stands for
  whatever \<^verbatim>\<open>ast.literal_eval\<close> raises on a string it rejects (a \<^verbatim>\<open>ValueError\<close> or a
  \<^verbatim>\<open>SyntaxError\<close>); all of them are subclasses of \<^verbatim>\<open>Exception\<close> and are handled by the
  same \<^verbatim>\<open>except Exception as e\<close> clause.
\<close>

datatype py_exception = LiteralEvalError | TypeError | KeyError | IndexError

text \<open>
  Python's \<^verbatim>\<open>len\<close>: defined on sized values, a \<^verbatim>\<open>TypeError\<close> on all others. A
  string is a list of 8-bit characters here, so the length is Python's for ASCII strings;
  a set or a dictionary is listed without repeated elements or keys.
\<close>

fun py_len :: "pyval \<Rightarrow> py_exception + int" where
  "py_len (PStr s) = Inr (int (length s))"
| "py_len (PBytes s) = Inr (int (length s))"
| "py_len (PList xs) = Inr (int (length xs))"
| "py_len (PTuple xs) = Inr (int (length xs))"
| "py_len (PSet xs) = Inr (int (length xs))"
| "py_len (PDict kvs) = Inr (int (length kvs))"
| "py_len PNone = Inl TypeError"
| "py_len (PBool b) = Inl TypeError"
| "py_len (PInt i) = Inl TypeError"
| "py_len (PFloat r) = Inl TypeError"
| "py_len (POpaque s) = Inl TypeError"

text \<open>\<^verbatim>\<open>d[k] = v\<close> on a dictionary: an existing key keeps its place, a new key goes last.\<close>

fun dict_setitem :: "string \<Rightarrow> pyval \<Rightarrow> pydict \<Rightarrow> pydict" where
  "dict_setitem k v [] = [(k, v)]"
| "dict_setitem k v ((k', v') # kvs) =
     (if k' = k then (k, v) # kvs else (k', v') # dict_setitem k v kvs)"

section \<open>Index definitions\<close>

text \<open>
  Every index definition of the script is a dictionary with the keys \<^verbatim>\<open>name\<close>, \<^verbatim>\<open>type\<close>
  and \<^verbatim>\<open>definition\<close>. The value under \<^verbatim>\<open>definition\<close> has one of two shapes:
  \<^verbatim>\<open>{"fields": [...]}\<close> for a vector index, a list of field dictionaries, and
  \<^verbatim>\<open>{"mappings": {"dynamic": ..., "fields": {...}}}\<close> for a text index, where the fields are a
  dictionary from field name to field dictionary.
\<close>

datatype definition' =
    Fields "pydict list"
  | Mappings bool "(string \<times> pydict) list"

record index =
  name :: string
  type :: string
  definition' :: definition'

definition medical_embeddings_index :: index where
  "medical_embeddings_index =
     \<lparr>name = ''vector_index_medical'',
      type = ''vectorSearch'',
      definition' = Fields
        [[(''type'', PStr ''vector''),
          (''path'', PStr ''embedding_vector''),
          (''numDimensions'', PInt 384),
          (''similarity'', PStr ''cosine'')],
         [(''type'', PStr ''filter''),
          (''path'', PStr ''medical_specialty'')],
         [(''type'', PStr ''filter''),
          (''path'', PStr ''confidence_score'')]]\<rparr>"

definition godzilla_index :: index where
  "godzilla_index =
     \<lparr>name = ''vector_index_godzilla'',
      type = ''vectorSearch'',
      definition' = Fields
        [[(''type'', PStr ''vector''),
          (''path'', PStr ''text_embedding''),
          (''numDimensions'', PInt 384),
          (''similarity'', PStr ''cosine'')],
         [(''type'', PStr ''filter''),
          (''path'', PStr ''medical_specialty'')],
         [(''type'', PStr ''filter''),
          (''path'', PStr ''clinical_relevance_score'')],
         [(''type'', PStr ''filter''),
          (''path'', PStr ''age_groups'')]]\<rparr>"

definition drug_search_index :: index where
  "drug_search_index =
     \<lparr>name = ''drug_search_index'',
      type = ''search'',
      definition' = Mappings False
        [(''drug_name'',
            [(''type'', PStr ''string''), (''analyzer'', PStr ''lucene.standard'')]),
         (''generic_name'',
            [(''type'', PStr ''string''), (''analyzer'', PStr ''lucene.standard'')]),
         (''indication'',
            [(''type'', PStr ''string''), (''analyzer'', PStr ''lucene.standard'')]),
         (''age_group'', [(''type'', PStr ''string'')]),
         (''route'', [(''type'', PStr ''string'')])]\<rparr>"

text \<open>
  The assignment \<^verbatim>\<open>ix['definition']['fields'][0]['numDimensions'] = dimension\<close>.
  The subscript \<^verbatim>\<open>['fields']\<close> raises \<^verbatim>\<open>KeyError\<close> on a definition that has only the key
  \<^verbatim>\<open>mappings\<close>, the subscript \<^verbatim>\<open>[0]\<close> raises \<^verbatim>\<open>IndexError\<close> on an empty list, and the
  final assignment sets the key in the first field dictionary, whatever its type.
\<close>

definition set_numDimensions :: "index \<Rightarrow> int \<Rightarrow> py_exception + index" where
  "set_numDimensions ix dimension =
     (case definition' ix of
        Mappings dyn fs \<Rightarrow> Inl KeyError
      | Fields [] \<Rightarrow> Inl IndexError
      | Fields (f # fs) \<Rightarrow>
          Inr (ix\<lparr>definition' :=
                 Fields (dict_setitem ''numDimensions'' (PInt dimension) f # fs)\<rparr>))"

text \<open>Reading \<^verbatim>\<open>ix['definition']['fields'][0]['numDimensions']\<close> back, where it exists.\<close>

definition get_numDimensions :: "index \<Rightarrow> pyval option" where
  "get_numDimensions ix =
     (case definition' ix of
        Mappings dyn fs \<Rightarrow> None
      | Fields [] \<Rightarrow> None
      | Fields (f # fs) \<Rightarrow> map_of f ''numDimensions'')"

section \<open>The database\<close>

text \<open>
  The database handle \<^verbatim>\<open>db\<close> maps a collection name to the documents of that collection in
  their natural order; a collection that does not exist is empty.
  \<^verbatim>\<open>find_one({'_metadata': {'$exists': False}})\<close> returns the first document without the
  key \<^verbatim>\<open>_metadata\<close>, or \<^verbatim>\<open>None\<close>.
\<close>

type_synonym database = "string \<Rightarrow> document list"

definition metadata_not_exists :: "document \<Rightarrow> bool" where
  "metadata_not_exists d = (map_of d ''_metadata'' = None)"

definition find_one :: "(document \<Rightarrow> bool) \<Rightarrow> document list \<Rightarrow> document option" where
  "find_one flt coll = List.find flt coll"

section \<open>A fragment of \<^verbatim>\<open>ast.literal_eval\<close>\<close>

text \<open>
  The theorems about all runs are stated for an arbitrary parser \<open>lit\<close>. Runs on concrete
  samples need a concrete parser: \<open>literal_eval\<close> below follows Python's
  \<^verbatim>\<open>ast.literal_eval\<close> on a fragment of its input language and reports a failure on
  every other string. The fragment consists of the strings that do not start with a blank
  and are one of the following, with blanks and tabs allowed between the tokens and at the
  end:
  \<^item> a decimal integer of at most 4300 digits without a superfluous leading zero, or a
    decimal fraction \<^verbatim>\<open>12.5\<close> or \<^verbatim>\<open>12.\<close>, each with at most one sign in front;
  \<^item> a string in single or in double quotes, made of printable ASCII characters other
    than the backslash and the quote itself;
  \<^item> \<^verbatim>\<open>None\<close>, \<^verbatim>\<open>True\<close> or \<^verbatim>\<open>False\<close>;
  \<^item> a list display \<^verbatim>\<open>[...]\<close> of such values, with an optional trailing comma.

  On a string of the fragment \<open>literal_eval\<close> returns the value Python returns. Python
  accepts more (tuples, dictionaries, nested lists, exponents, escapes, adjacent string
  literals, an indented literal in recent versions), so a failure of \<open>literal_eval\<close> is
  only relied on for strings that Python rejects as well.
\<close>

datatype token = LBRACK | RBRACK | COMMA | MINUS | PLUS | NUMBER pyval | STRING string | NAME string

definition is_digit :: "char \<Rightarrow> bool" where
  "is_digit c = (CHR ''0'' \<le> c \<and> c \<le> CHR ''9'')"

definition is_name_char :: "char \<Rightarrow> bool" where
  "is_name_char c =
     ((CHR ''a'' \<le> c \<and> c \<le> CHR ''z'') \<or> (CHR ''A'' \<le> c \<and> c \<le> CHR ''Z'') \<or>
      c = CHR ''_'' \<or> is_digit c)"

definition is_plain_char :: "char \<Rightarrow> bool" where
  "is_plain_char c = (CHR 0x20 \<le> c \<and> c \<le> CHR 0x7E \<and> c \<noteq> CHR 0x5C)"

definition digits_value :: "string \<Rightarrow> nat" where
  "digits_value ds = foldl (\<lambda>a c. 10 * a + (of_char c - 48)) 0 ds"

definition valid_int_digits :: "string \<Rightarrow> bool" where
  "valid_int_digits ds =
     (ds \<noteq> [] \<and> length ds \<le> 4300 \<and>
      (hd ds \<noteq> CHR ''0'' \<or> list_all (\<lambda>c. c = CHR ''0'') ds))"

function tokenize :: "string \<Rightarrow> token list option" where
  "tokenize [] = Some []"
| "tokenize (c # cs) =
     (if c = CHR '' '' \<or> c = CHR 0x09 then tokenize cs
      else if c = CHR ''['' then map_option (Cons LBRACK) (tokenize cs)
      else if c = CHR '']'' then map_option (Cons RBRACK) (tokenize cs)
      else if c = CHR '','' then map_option (Cons COMMA) (tokenize cs)
      else if c = CHR ''-'' then map_option (Cons MINUS) (tokenize cs)
      else if c = CHR ''+'' then map_option (Cons PLUS) (tokenize cs)
      else if c = CHR 0x27 \<or> c = CHR 0x22 then
        (let body = takeWhile (\<lambda>x. x \<noteq> c) cs;
             rest = dropWhile (\<lambda>x. x \<noteq> c) cs
         in if rest = [] \<or> \<not> list_all is_plain_char body then None
            else map_option (Cons (STRING body)) (tokenize (tl rest)))
      else if is_digit c then
        (let ds = c # takeWhile is_digit cs;
             rest = dropWhile is_digit cs
         in case rest of
              [] \<Rightarrow> if valid_int_digits ds then Some [NUMBER (PInt (int (digits_value ds)))] else None
            | r # rs \<Rightarrow>
                if r = CHR ''.'' then
                  (let fs = takeWhile is_digit rs;
                       rest' = dropWhile is_digit rs
                   in if rest' \<noteq> [] \<and> (is_name_char (hd rest') \<or> hd rest' = CHR ''.'') then None
                      else map_option
                             (Cons (NUMBER (PFloat (real (digits_value (ds @ fs)) / 10 ^ length fs))))
                             (tokenize rest'))
                else if is_name_char r \<or> \<not> valid_int_digits ds then None
                else map_option (Cons (NUMBER (PInt (int (digits_value ds))))) (tokenize rest))
      else if is_name_char c then
        map_option (Cons (NAME (c # takeWhile is_name_char cs))) (tokenize (dropWhile is_name_char cs))
      else None)"
  by pat_completeness auto
termination
proof (relation "measure length", goal_cases)
  case 1
  then show ?case by simp
next
  case (2 c cs)
  then show ?case by simp
next
  case (3 c cs)
  then show ?case by simp
next
  case (4 c cs)
  then show ?case by simp
next
  case (5 c cs)
  then show ?case by simp
next
  case (6 c cs)
  then show ?case by simp
next
  case (7 c cs)
  then show ?case by simp
next
  case (8 c cs body rest)
  have "length (tl rest) \<le> length rest" by simp
  also have "length rest \<le> length cs" using 8 by (simp add: length_dropWhile_le)
  finally show ?case by simp
next
  case (9 c cs ds rest r rs fs rest')
  have "length rest' \<le> length rs" using 9 by (simp add: length_dropWhile_le)
  also have "length rs < length rest" using \<open>rest = r # rs\<close> by simp
  also have "length rest \<le> length cs" using 9 by (simp add: length_dropWhile_le)
  finally show ?case by simp
next
  case (10 c cs ds rest r rs)
  have "length rest \<le> length cs" using 10 by (simp add: length_dropWhile_le)
  then show ?case by simp
next
  case (11 c cs)
  have "length (dropWhile is_name_char cs) \<le> length cs" by (simp add: length_dropWhile_le)
  then show ?case by simp
qed

fun negate :: "pyval \<Rightarrow> pyval" where
  "negate (PInt i) = PInt (- i)"
| "negate (PFloat r) = PFloat (- r)"
| "negate v = v"

definition name_value :: "string \<Rightarrow> pyval option" where
  "name_value n =
     (if n = ''None'' then Some PNone
      else if n = ''True'' then Some (PBool True)
      else if n = ''False'' then Some (PBool False)
      else None)"

fun parse_elements :: "pyval list \<Rightarrow> bool \<Rightarrow> token list \<Rightarrow> pyval option" where
  "parse_elements acc ev [RBRACK] = Some (PList (rev acc))"
| "parse_elements acc True (NUMBER v # ts) = parse_elements (v # acc) False ts"
| "parse_elements acc True (MINUS # NUMBER v # ts) = parse_elements (negate v # acc) False ts"
| "parse_elements acc True (PLUS # NUMBER v # ts) = parse_elements (v # acc) False ts"
| "parse_elements acc True (STRING s # ts) = parse_elements (PStr s # acc) False ts"
| "parse_elements acc True (NAME n # ts) =
     (case name_value n of None \<Rightarrow> None | Some v \<Rightarrow> parse_elements (v # acc) False ts)"
| "parse_elements acc False (COMMA # ts) = parse_elements acc True ts"
| "parse_elements acc ev ts = None"

fun parse_literal :: "token list \<Rightarrow> pyval option" where
  "parse_literal (LBRACK # ts) = parse_elements [] True ts"
| "parse_literal [NUMBER v] = Some v"
| "parse_literal [MINUS, NUMBER v] = Some (negate v)"
| "parse_literal [PLUS, NUMBER v] = Some v"
| "parse_literal [STRING s] = Some (PStr s)"
| "parse_literal [NAME n] = name_value n"
| "parse_literal ts = None"

definition starts_with_blank :: "string \<Rightarrow> bool" where
  "starts_with_blank s = (case s of [] \<Rightarrow> False | c # cs \<Rightarrow> c = CHR '' '' \<or> c = CHR 0x09)"

definition literal_eval :: "string \<Rightarrow> py_exception + pyval" where
  "literal_eval s =
     (if starts_with_blank s then Inl LiteralEvalError
      else case tokenize s of
             None \<Rightarrow> Inl LiteralEvalError
           | Some ts \<Rightarrow>
               (case parse_literal ts of None \<Rightarrow> Inl LiteralEvalError | Some v \<Rightarrow> Inr v))"

section \<open>The analysis of the existing embeddings\<close>

text \<open>
  What the script prints between the banner \<^verbatim>\<open>ANALYZING EXISTING EMBEDDINGS\<close> and the banner
  \<^verbatim>\<open>SETUP COMPLETE\<close>, one event for each line that is not blank: the two lines that
  report the detected dimension, the confirmation of the update, the warning about an
  unrecognized format and the warning that carries the exception. Everything else the script
  prints is the same on every run.
\<close>

datatype log_event =
    DimensionDetected int
  | UpdateNumDimensionsTo int
  | DefinitionsUpdated
  | FormatNotRecognized
  | CouldNotParse py_exception

text \<open>
  The body of the \<^verbatim>\<open>try\<close> block (lines 182 to 196), on the state made of the two vector
  index definitions. It returns what was printed, the state reached and the exception that
  ended the block, if any: an assignment made before an exception is raised stays made.
  The parser \<^verbatim>\<open>ast.literal_eval\<close> belongs to Python's library, not to the script, and is a
  parameter \<open>lit\<close> here.
\<close>

definition try_body ::
  "(string \<Rightarrow> py_exception + pyval) \<Rightarrow> pyval \<Rightarrow> index \<times> index \<Rightarrow>
     log_event list \<times> (index \<times> index) \<times> py_exception option" where
  "try_body lit embedding_str st =
     (case embedding_str of
        PStr s \<Rightarrow>
          (case lit s of
             Inl e \<Rightarrow> ([], st, Some e)
           | Inr embedding_list \<Rightarrow>
               (case py_len embedding_list of
                  Inl e \<Rightarrow> ([], st, Some e)
                | Inr dimension \<Rightarrow>
                    (let out = [DimensionDetected dimension, UpdateNumDimensionsTo dimension]
                     in case set_numDimensions (fst st) dimension of
                          Inl e \<Rightarrow> (out, st, Some e)
                        | Inr m \<Rightarrow>
                            (case set_numDimensions (snd st) dimension of
                               Inl e \<Rightarrow> (out, (m, snd st), Some e)
                             | Inr g \<Rightarrow> (out @ [DefinitionsUpdated], (m, g), None)))))
      | _ \<Rightarrow> ([FormatNotRecognized], st, None))"

text \<open>
  Lines 177 to 198: the guard \<^verbatim>\<open>if sample and 'embedding' in sample\<close>, the \<^verbatim>\<open>try\<close> block
  and its handler, which prints the exception and goes on.
\<close>

definition analyze_existing_embeddings ::
  "(string \<Rightarrow> py_exception + pyval) \<Rightarrow> document option \<Rightarrow> index \<times> index \<Rightarrow>
     log_event list \<times> (index \<times> index)" where
  "analyze_existing_embeddings lit sample st =
     (case sample of
        None \<Rightarrow> ([], st)
      | Some d \<Rightarrow>
          (if d \<noteq> [] then
             (case map_of d ''embedding'' of
                None \<Rightarrow> ([], st)
              | Some embedding_str \<Rightarrow>
                  (case try_body lit embedding_str st of
                     (out, st', None) \<Rightarrow> (out, st')
                   | (out, st', Some e) \<Rightarrow> (out @ [CouldNotParse e], st')))
           else ([], st)))"

text \<open>
  The whole function. The result is what the analysis printed and the returned dictionary,
  with its three keys in the order of the \<^verbatim>\<open>return\<close> statement.
\<close>

record outcome =
  printed :: "log_event list"
  returned :: "(string \<times> index) list"

definition setup_vector_search_indexes ::
  "(string \<Rightarrow> py_exception + pyval) \<Rightarrow> database \<Rightarrow> outcome" where
  "setup_vector_search_indexes lit db =
     (let medical_embeddings = db ''medical_embeddings'';
          sample = find_one metadata_not_exists medical_embeddings;
          (out, (m, g)) =
            analyze_existing_embeddings lit sample (medical_embeddings_index, godzilla_index)
      in \<lparr>printed = out,
          returned = [(''medical_embeddings_index'', m),
                      (''godzilla_index'', g),
                      (''drug_search_index'', drug_search_index)]\<rparr>)"

section \<open>Observations used in the statements\<close>

text \<open>The test \<^verbatim>\<open>isinstance(v, str)\<close> of line 183.\<close>

fun isinstance_str :: "pyval \<Rightarrow> bool" where
  "isinstance_str (PStr s) = True"
| "isinstance_str v = False"

text \<open>Reading \<^verbatim>\<open>ix['definition']['fields'][0]['path']\<close>, where it exists.\<close>

definition get_path :: "index \<Rightarrow> pyval option" where
  "get_path ix =
     (case definition' ix of
        Mappings dyn fs \<Rightarrow> None
      | Fields [] \<Rightarrow> None
      | Fields (f # fs) \<Rightarrow> map_of f ''path'')"

text \<open>The entry of the returned dictionary under a key, and its dimension.\<close>

definition returned_numDimensions :: "outcome \<Rightarrow> string \<Rightarrow> pyval option" where
  "returned_numDimensions out k =
     (case map_of (returned out) k of None \<Rightarrow> None | Some ix \<Rightarrow> get_numDimensions ix)"

text \<open>
  The three shapes of field the specification names: a VectorField with the cosine metric,
  a FilterField, and a TextField with or without an analyzer.
\<close>

definition vector_field :: "string \<Rightarrow> int \<Rightarrow> pydict" where
  "vector_field p n =
     [(''type'', PStr ''vector''), (''path'', PStr p), (''numDimensions'', PInt n),
      (''similarity'', PStr ''cosine'')]"

definition filter_field :: "string \<Rightarrow> pydict" where
  "filter_field p = [(''type'', PStr ''filter''), (''path'', PStr p)]"

fun text_field :: "string option \<Rightarrow> pydict" where
  "text_field None = [(''type'', PStr ''string'')]"
| "text_field (Some a) = [(''type'', PStr ''string''), (''analyzer'', PStr a)]"

definition is_vector_field :: "pydict \<Rightarrow> bool" where
  "is_vector_field f = (map_of f ''type'' = Some (PStr ''vector''))"

definition is_filter_field :: "pydict \<Rightarrow> bool" where
  "is_filter_field f = (map_of f ''type'' = Some (PStr ''filter''))"

text \<open>The field list of a vector index definition (empty for a text index).\<close>

definition fields_of :: "index \<Rightarrow> pydict list" where
  "fields_of ix = (case definition' ix of Fields fs \<Rightarrow> fs | Mappings dyn fs \<Rightarrow> [])"

text \<open>The flag and the field dictionary of a text index definition.\<close>

definition dynamic_of :: "index \<Rightarrow> bool option" where
  "dynamic_of ix = (case definition' ix of Fields fs \<Rightarrow> None | Mappings dyn fs \<Rightarrow> Some dyn)"

definition mapping_fields_of :: "index \<Rightarrow> (string \<times> pydict) list" where
  "mapping_fields_of ix = (case definition' ix of Fields fs \<Rightarrow> [] | Mappings dyn fs \<Rightarrow> fs)"

text \<open>The returned dictionary of a run in which no assignment to a definition is made.\<close>

definition unchanged_result :: "(string \<times> index) list" where
  "unchanged_result =
     [(''medical_embeddings_index'', medical_embeddings_index),
      (''godzilla_index'', godzilla_index),
      (''drug_search_index'', drug_search_index)]"

section \<open>Example databases\<close>

text \<open>A database whose only documents are the given ones, in \<^verbatim>\<open>medical_embeddings\<close>.\<close>

definition medical_only :: "document list \<Rightarrow> database" where
  "medical_only ds = (\<lambda>c. if c = ''medical_embeddings'' then ds else [])"

text \<open>
  Two collections with embeddings of different lengths: in \<^verbatim>\<open>medical_embeddings\<close> a
  record carrying \<^verbatim>\<open>_metadata\<close> followed by one with a vector of length 3, in
  \<^verbatim>\<open>godzilla_medical_dataset\<close> one record with vectors of length 2.
\<close>

definition two_collections :: database where
  "two_collections =
     (\<lambda>c. if c = ''medical_embeddings'' then
             [[(''_id'', PInt 1), (''_metadata'', PStr ''migrated''),
               (''embedding'', PStr ''[9]'')],
              [(''_id'', PInt 2), (''embedding'', PStr ''[1, 2, 3]'')]]
           else if c = ''godzilla_medical_dataset'' then
             [[(''_id'', PInt 1), (''embedding'', PStr ''[1, 2]''),
               (''text_embedding'', PStr ''[1, 2]'')]]
           else [])"

text \<open>The textual encoding of a vector of 384 zeros: \<^verbatim>\<open>[0,0,...,0]\<close>.\<close>

definition zeros_384 :: string where
  "zeros_384 = ''['' @ concat (replicate 383 ''0,'') @ ''0]''"

section \<open>Basic facts about the model\<close>

lemmas literal_eval_simps =
  literal_eval_def starts_with_blank_def is_digit_def is_name_char_def is_plain_char_def
  digits_value_def valid_int_digits_def name_value_def

lemma setup_unfold:
  "setup_vector_search_indexes lit db =
     (case analyze_existing_embeddings lit
             (find_one metadata_not_exists (db ''medical_embeddings''))
             (medical_embeddings_index, godzilla_index) of
        (out, (m, g)) \<Rightarrow>
          \<lparr>printed = out,
           returned = [(''medical_embeddings_index'', m),
                       (''godzilla_index'', g),
                       (''drug_search_index'', drug_search_index)]\<rparr>)"
  by (simp add: setup_vector_search_indexes_def Let_def)

lemma set_numDimensions_medical:
  "set_numDimensions medical_embeddings_index n =
     Inr (medical_embeddings_index\<lparr>definition' := Fields
        [[(''type'', PStr ''vector''),
          (''path'', PStr ''embedding_vector''),
          (''numDimensions'', PInt n),
          (''similarity'', PStr ''cosine'')],
         [(''type'', PStr ''filter''),
          (''path'', PStr ''medical_specialty'')],
         [(''type'', PStr ''filter''),
          (''path'', PStr ''confidence_score'')]]\<rparr>)"
  by (simp add: set_numDimensions_def medical_embeddings_index_def)

lemma set_numDimensions_godzilla:
  "set_numDimensions godzilla_index n =
     Inr (godzilla_index\<lparr>definition' := Fields
        [[(''type'', PStr ''vector''),
          (''path'', PStr ''text_embedding''),
          (''numDimensions'', PInt n),
          (''similarity'', PStr ''cosine'')],
         [(''type'', PStr ''filter''),
          (''path'', PStr ''medical_specialty'')],
         [(''type'', PStr ''filter''),
          (''path'', PStr ''clinical_relevance_score'')],
         [(''type'', PStr ''filter''),
          (''path'', PStr ''age_groups'')]]\<rparr>)"
  by (simp add: set_numDimensions_def godzilla_index_def)

lemma analyze_no_sample:
  "analyze_existing_embeddings lit None st = ([], st)"
  by (simp add: analyze_existing_embeddings_def)

lemma analyze_absent:
  "map_of d ''embedding'' = None \<Longrightarrow> analyze_existing_embeddings lit (Some d) st = ([], st)"
  by (simp add: analyze_existing_embeddings_def)

lemma map_of_Some_nonempty: "map_of d k = Some v \<Longrightarrow> d \<noteq> []"
  by auto

lemma analyze_not_str:
  assumes "map_of d ''embedding'' = Some v" and "\<not> isinstance_str v"
  shows "analyze_existing_embeddings lit (Some d) st = ([FormatNotRecognized], st)"
  using assms map_of_Some_nonempty [OF assms(1)]
  by (cases v) (simp_all add: analyze_existing_embeddings_def try_body_def)

lemma analyze_raises:
  assumes "map_of d ''embedding'' = Some (PStr s)" and "lit s = Inl e"
  shows "analyze_existing_embeddings lit (Some d) st = ([CouldNotParse e], st)"
  using assms map_of_Some_nonempty [OF assms(1)]
  by (simp add: analyze_existing_embeddings_def try_body_def)

lemma analyze_no_len:
  assumes "map_of d ''embedding'' = Some (PStr s)" and "lit s = Inr v" and "py_len v = Inl e"
  shows "analyze_existing_embeddings lit (Some d) st = ([CouldNotParse e], st)"
  using assms map_of_Some_nonempty [OF assms(1)]
  by (simp add: analyze_existing_embeddings_def try_body_def)

lemma analyze_applied:
  assumes "map_of d ''embedding'' = Some (PStr s)" and "lit s = Inr v" and "py_len v = Inr n"
    and "set_numDimensions m n = Inr m'" and "set_numDimensions g n = Inr g'"
  shows "analyze_existing_embeddings lit (Some d) (m, g) =
           ([DimensionDetected n, UpdateNumDimensionsTo n, DefinitionsUpdated], (m', g'))"
  using assms map_of_Some_nonempty [OF assms(1)]
  by (simp add: analyze_existing_embeddings_def try_body_def)

lemma py_len_nonneg: "py_len v = Inr n \<Longrightarrow> 0 \<le> n"
  by (cases v) auto

lemma tokenize_zero_comma:
  "tokenize (''0,'' @ cs) = map_option (\<lambda>ts. NUMBER (PInt 0) # COMMA # ts) (tokenize cs)"
  by (cases "tokenize cs") (simp_all add: literal_eval_simps)

lemma tokenize_zeros:
  "tokenize (concat (replicate n ''0,'') @ ''0]'') =
     Some (concat (replicate n [NUMBER (PInt 0), COMMA]) @ [NUMBER (PInt 0), RBRACK])"
proof (induction n)
  case 0
  show ?case by (simp add: literal_eval_simps)
next
  case (Suc n)
  have "tokenize (concat (replicate (Suc n) ''0,'') @ ''0]'') =
          tokenize (''0,'' @ (concat (replicate n ''0,'') @ ''0]''))"
    by simp
  also have "\<dots> = map_option (\<lambda>ts. NUMBER (PInt 0) # COMMA # ts)
                      (tokenize (concat (replicate n ''0,'') @ ''0]''))"
    by (rule tokenize_zero_comma)
  finally show ?case by (simp add: Suc.IH)
qed

lemma parse_elements_zeros:
  "parse_elements acc True
     (concat (replicate n [NUMBER (PInt 0), COMMA]) @ [NUMBER (PInt 0), RBRACK]) =
   Some (PList (rev acc @ replicate (Suc n) (PInt 0)))"
proof (induction n arbitrary: acc)
  case 0
  show ?case by simp
next
  case (Suc n)
  show ?case using Suc.IH [of "PInt 0 # acc"]
    by (simp add: replicate_append_same)
qed

lemma literal_eval_zeros_384:
  "literal_eval zeros_384 = Inr (PList (replicate 384 (PInt 0)))"
proof -
  have "tokenize zeros_384 =
          Some (LBRACK # concat (replicate 383 [NUMBER (PInt 0), COMMA]) @ [NUMBER (PInt 0), RBRACK])"
    unfolding zeros_384_def using tokenize_zeros [of 383] by simp
  moreover have "parse_literal
      (LBRACK # concat (replicate 383 [NUMBER (PInt 0), COMMA]) @ [NUMBER (PInt 0), RBRACK]) =
      Some (PList (replicate 384 (PInt 0)))"
    using parse_elements_zeros [of "[]" 383] by simp
  moreover have "\<not> starts_with_blank zeros_384"
    by (simp add: starts_with_blank_def zeros_384_def)
  ultimately show ?thesis by (simp add: literal_eval_def)
qed

lemma setup_unchanged:
  assumes "analyze_existing_embeddings lit
             (find_one metadata_not_exists (db ''medical_embeddings''))
             (medical_embeddings_index, godzilla_index) =
           (out, (medical_embeddings_index, godzilla_index))"
  shows "setup_vector_search_indexes lit db = \<lparr>printed = out, returned = unchanged_result\<rparr>"
  using assms by (simp add: setup_unfold unchanged_result_def)

lemma get_numDimensions_baseline:
  "get_numDimensions medical_embeddings_index = Some (PInt 384)"
  "get_numDimensions godzilla_index = Some (PInt 384)"
  by (simp_all add: get_numDimensions_def medical_embeddings_index_def godzilla_index_def)

lemma returned_numDimensions_unchanged:
  "returned_numDimensions \<lparr>printed = out, returned = unchanged_result\<rparr> ''medical_embeddings_index''
     = Some (PInt 384)"
  "returned_numDimensions \<lparr>printed = out, returned = unchanged_result\<rparr> ''godzilla_index''
     = Some (PInt 384)"
  by (simp_all add: returned_numDimensions_def unchanged_result_def get_numDimensions_baseline)

lemma setup_applied:
  assumes "find_one metadata_not_exists (db ''medical_embeddings'') = Some d"
    and "map_of d ''embedding'' = Some (PStr s)"
    and "lit s = Inr v" and "py_len v = Inr n"
  shows "printed (setup_vector_search_indexes lit db) =
           [DimensionDetected n, UpdateNumDimensionsTo n, DefinitionsUpdated]"
    and "returned_numDimensions (setup_vector_search_indexes lit db) ''medical_embeddings_index''
           = Some (PInt n)"
    and "returned_numDimensions (setup_vector_search_indexes lit db) ''godzilla_index''
           = Some (PInt n)"
  using analyze_applied [where lit = lit and d = d and s = s and v = v and n = n,
      OF assms(2,3,4) set_numDimensions_medical set_numDimensions_godzilla]
  by (simp_all add: setup_unfold assms(1) returned_numDimensions_def get_numDimensions_def)

lemma setup_failure:
  assumes "find_one metadata_not_exists (db ''medical_embeddings'') = Some d"
    and "map_of d ''embedding'' = Some (PStr s)"
    and "lit s = Inl e \<or> (\<exists>v. lit s = Inr v \<and> py_len v = Inl e)"
  shows "setup_vector_search_indexes lit db =
           \<lparr>printed = [CouldNotParse e], returned = unchanged_result\<rparr>"
proof (rule setup_unchanged)
  from assms(3) show "analyze_existing_embeddings lit
      (find_one metadata_not_exists (db ''medical_embeddings''))
      (medical_embeddings_index, godzilla_index) =
      ([CouldNotParse e], (medical_embeddings_index, godzilla_index))"
  proof
    assume "lit s = Inl e"
    then show ?thesis
      by (simp add: assms(1) analyze_raises [where lit = lit, OF assms(2)])
  next
    assume "\<exists>v. lit s = Inr v \<and> py_len v = Inl e"
    then obtain v where "lit s = Inr v" and "py_len v = Inl e"
      by blast
    then show ?thesis
      by (simp add: assms(1) analyze_no_len [where lit = lit, OF assms(2)])
  qed
qed

lemma literal_eval_examples:
  "literal_eval ''not-a-vector'' = Inl LiteralEvalError"
  "literal_eval ''['a', 'b']'' = Inr (PList [PStr ''a'', PStr ''b''])"
  "literal_eval ''[]'' = Inr (PList [])"
  "literal_eval ''[1, 2]'' = Inr (PList [PInt 1, PInt 2])"
  "literal_eval ''[1, 2, 3]'' = Inr (PList [PInt 1, PInt 2, PInt 3])"
  "literal_eval ''[0.1, 0.2, 0.3, 0.4]'' =
     Inr (PList [PFloat 0.1, PFloat 0.2, PFloat 0.3, PFloat 0.4])"
  "literal_eval ''384'' = Inr (PInt 384)"
  by (simp_all add: literal_eval_simps)

lemma analyze_baseline_cases:
  "(\<exists>out. analyze_existing_embeddings lit sample (medical_embeddings_index, godzilla_index) =
           (out, (medical_embeddings_index, godzilla_index))) \<or>
   (\<exists>n m g. set_numDimensions medical_embeddings_index n = Inr m \<and>
            set_numDimensions godzilla_index n = Inr g \<and>
            analyze_existing_embeddings lit sample (medical_embeddings_index, godzilla_index) =
              ([DimensionDetected n, UpdateNumDimensionsTo n, DefinitionsUpdated], (m, g)))"
  by (simp add: analyze_existing_embeddings_def try_body_def set_numDimensions_medical
        set_numDimensions_godzilla
      split: option.split pyval.split sum.split)

lemma returned_numDimensions_equal:
  "returned_numDimensions (setup_vector_search_indexes lit db) ''godzilla_index'' =
   returned_numDimensions (setup_vector_search_indexes lit db) ''medical_embeddings_index''"
proof -
  let ?sample = "find_one metadata_not_exists (db ''medical_embeddings'')"
  from analyze_baseline_cases [of lit ?sample] show ?thesis
  proof (elim disjE exE conjE)
    fix out
    assume "analyze_existing_embeddings lit ?sample (medical_embeddings_index, godzilla_index) =
              (out, (medical_embeddings_index, godzilla_index))"
    then have "setup_vector_search_indexes lit db = \<lparr>printed = out, returned = unchanged_result\<rparr>"
      by (rule setup_unchanged)
    then show ?thesis
      by (simp add: returned_numDimensions_unchanged)
  next
    fix n m g
    assume "set_numDimensions medical_embeddings_index n = Inr m"
      and "set_numDimensions godzilla_index n = Inr g"
      and "analyze_existing_embeddings lit ?sample (medical_embeddings_index, godzilla_index) =
              ([DimensionDetected n, UpdateNumDimensionsTo n, DefinitionsUpdated], (m, g))"
    then show ?thesis
      by (auto simp add: setup_unfold returned_numDimensions_def get_numDimensions_def
            set_numDimensions_medical set_numDimensions_godzilla)
  qed
qed

lemma find_one_restricted:
  "find_one metadata_not_exists
     (medical_only (case find_one metadata_not_exists ds of None \<Rightarrow> [] | Some d \<Rightarrow> [d])
        ''medical_embeddings'') = find_one metadata_not_exists ds"
proof (induction ds)
  case Nil
  show ?case by (simp add: find_one_def medical_only_def)
next
  case (Cons d ds)
  then show ?case by (simp add: find_one_def medical_only_def)
qed

lemma dict_setitem_idem:
  "dict_setitem k v (dict_setitem k v kvs) = dict_setitem k v kvs"
  by (induction kvs) auto

lemma set_numDimensions_idem:
  assumes "set_numDimensions ix n = Inr ix'"
  shows "set_numDimensions ix' n = Inr ix'"
proof (cases "definition' ix")
  case (Mappings dyn fs)
  with assms show ?thesis by (simp add: set_numDimensions_def)
next
  case (Fields fs)
  show ?thesis
  proof (cases fs)
    case Nil
    with Fields assms show ?thesis by (simp add: set_numDimensions_def)
  next
    case (Cons f fs')
    with Fields assms
    have "ix' = ix\<lparr>definition' := Fields (dict_setitem ''numDimensions'' (PInt n) f # fs')\<rparr>"
      by (simp add: set_numDimensions_def)
    then show ?thesis
      by (simp add: set_numDimensions_def dict_setitem_idem)
  qed
qed

lemma try_body_idem:
  assumes "try_body lit x (m, g) = (out, st', r)"
  shows "try_body lit x st' = (out, st', r)"
proof (cases x)
  case (PStr s)
  show ?thesis
  proof (cases "lit s")
    case (Inl e)
    with PStr assms show ?thesis by (auto simp add: try_body_def)
  next
    case (Inr v)
    note lit = this
    show ?thesis
    proof (cases "py_len v")
      case (Inl e)
      with PStr lit assms show ?thesis by (auto simp add: try_body_def)
    next
      case (Inr n)
      note len = this
      show ?thesis
      proof (cases "set_numDimensions m n")
        case (Inl e)
        with PStr lit len assms show ?thesis by (auto simp add: try_body_def)
      next
        case (Inr m')
        note sm = this
        note sm' = set_numDimensions_idem [OF sm]
        show ?thesis
        proof (cases "set_numDimensions g n")
          case (Inl e)
          with PStr lit len sm sm' assms show ?thesis by (auto simp add: try_body_def)
        next
          case (Inr g')
          note sg' = set_numDimensions_idem [OF this]
          from PStr lit len sm sm' Inr sg' assms show ?thesis
            by (auto simp add: try_body_def)
        qed
      qed
    qed
  qed
qed (use assms in \<open>auto simp add: try_body_def\<close>)

lemma analyze_idem:
  assumes "analyze_existing_embeddings lit sample st = (out, st')"
  shows "analyze_existing_embeddings lit sample st' = (out, st')"
proof (cases sample)
  case None
  with assms show ?thesis by (simp add: analyze_existing_embeddings_def)
next
  case (Some d)
  show ?thesis
  proof (cases "d \<noteq> [] \<and> map_of d ''embedding'' \<noteq> None")
    case False
    with Some assms show ?thesis
      by (auto simp add: analyze_existing_embeddings_def split: option.splits if_splits)
  next
    case True
    then obtain x where x: "d \<noteq> []" "map_of d ''embedding'' = Some x"
      by auto
    obtain m g where st: "st = (m, g)"
      by (cases st)
    obtain o1 s1 r1 where tb: "try_body lit x (m, g) = (o1, s1, r1)"
      by (cases "try_body lit x (m, g)")
    have tb': "try_body lit x s1 = (o1, s1, r1)"
      by (rule try_body_idem [OF tb])
    from assms Some x st tb have "st' = s1"
      by (cases r1) (simp_all add: analyze_existing_embeddings_def)
    with assms Some x st tb tb' show ?thesis
      by (cases r1) (simp_all add: analyze_existing_embeddings_def)
  qed
qed

lemma set_numDimensions_384:
  "set_numDimensions medical_embeddings_index 384 = Inr medical_embeddings_index"
  "set_numDimensions godzilla_index 384 = Inr godzilla_index"
  by (simp_all add: set_numDimensions_def medical_embeddings_index_def godzilla_index_def)

lemma returned_keys:
  "map fst (returned (setup_vector_search_indexes lit db)) =
     [''medical_embeddings_index'', ''godzilla_index'', ''drug_search_index'']"
  by (simp add: setup_unfold split: prod.split)

lemma returned_384_is_unchanged:
  assumes "returned_numDimensions (setup_vector_search_indexes lit db)
             ''medical_embeddings_index'' = Some (PInt 384)"
  shows "returned (setup_vector_search_indexes lit db) = unchanged_result"
proof -
  let ?sample = "find_one metadata_not_exists (db ''medical_embeddings'')"
  from analyze_baseline_cases [of lit ?sample] show ?thesis
  proof (elim disjE exE conjE)
    fix out
    assume "analyze_existing_embeddings lit ?sample (medical_embeddings_index, godzilla_index) =
              (out, (medical_embeddings_index, godzilla_index))"
    then have "setup_vector_search_indexes lit db = \<lparr>printed = out, returned = unchanged_result\<rparr>"
      by (rule setup_unchanged)
    then show ?thesis by simp
  next
    fix n m g
    assume m: "set_numDimensions medical_embeddings_index n = Inr m"
      and g: "set_numDimensions godzilla_index n = Inr g"
      and a: "analyze_existing_embeddings lit ?sample (medical_embeddings_index, godzilla_index) =
              ([DimensionDetected n, UpdateNumDimensionsTo n, DefinitionsUpdated], (m, g))"
    from a have r: "returned (setup_vector_search_indexes lit db) =
        [(''medical_embeddings_index'', m), (''godzilla_index'', g),
         (''drug_search_index'', drug_search_index)]"
      by (simp add: setup_unfold)
    from m have "get_numDimensions m = Some (PInt n)"
      by (auto simp add: set_numDimensions_medical get_numDimensions_def)
    with assms r have "n = 384"
      by (simp add: returned_numDimensions_def)
    with m g have "m = medical_embeddings_index" and "g = godzilla_index"
      by (simp_all add: set_numDimensions_384)
    with r show ?thesis
      by (simp add: unchanged_result_def)
  qed
qed

lemma setup_zeros_384:
  "printed (setup_vector_search_indexes literal_eval
      (medical_only [[(''embedding'', PStr zeros_384)]])) =
     [DimensionDetected 384, UpdateNumDimensionsTo 384, DefinitionsUpdated]"
  "returned_numDimensions (setup_vector_search_indexes literal_eval
      (medical_only [[(''embedding'', PStr zeros_384)]])) ''medical_embeddings_index''
     = Some (PInt 384)"
proof -
  let ?d = "[(''embedding'', PStr zeros_384)]"
  have f: "find_one metadata_not_exists (medical_only [?d] ''medical_embeddings'') = Some ?d"
    by (simp add: find_one_def medical_only_def metadata_not_exists_def)
  have a: "map_of ?d ''embedding'' = Some (PStr zeros_384)"
    by simp
  have l: "py_len (PList (replicate 384 (PInt 0))) = Inr 384"
    by simp
  note ap = setup_applied [where lit = literal_eval and db = "medical_only [?d]",
        OF f a literal_eval_zeros_384 l]
  show "printed (setup_vector_search_indexes literal_eval (medical_only [?d])) =
     [DimensionDetected 384, UpdateNumDimensionsTo 384, DefinitionsUpdated]"
    by (rule ap(1))
  show "returned_numDimensions (setup_vector_search_indexes literal_eval
      (medical_only [?d])) ''medical_embeddings_index'' = Some (PInt 384)"
    by (rule ap(2))
qed

lemma setup_empty_database:
  "setup_vector_search_indexes lit (medical_only []) =
     \<lparr>printed = [], returned = unchanged_result\<rparr>"
  by (rule setup_unchanged) (simp add: find_one_def medical_only_def analyze_no_sample)

lemma fields_of_baseline:
  "fields_of medical_embeddings_index =
     vector_field ''embedding_vector'' 384 #
     map filter_field [''medical_specialty'', ''confidence_score'']"
  "fields_of godzilla_index =
     vector_field ''text_embedding'' 384 #
     map filter_field [''medical_specialty'', ''clinical_relevance_score'', ''age_groups'']"
  by (simp_all add: fields_of_def medical_embeddings_index_def godzilla_index_def
        vector_field_def filter_field_def)

lemma field_shapes:
  "is_vector_field (vector_field p n)"
  "\<not> is_filter_field (vector_field p n)"
  "is_filter_field (filter_field p)"
  "\<not> is_vector_field (filter_field p)"
  "map_of (vector_field p n) ''similarity'' = Some (PStr ''cosine'')"
  "map_of (filter_field p) ''path'' = Some (PStr p)"
  by (simp_all add: is_vector_field_def is_filter_field_def vector_field_def filter_field_def)

lemma returned_fields:
  "\<exists>n. map_option fields_of
          (map_of (returned (setup_vector_search_indexes lit db)) ''medical_embeddings_index'') =
        Some (vector_field ''embedding_vector'' n #
              map filter_field [''medical_specialty'', ''confidence_score'']) \<and>
       map_option fields_of
          (map_of (returned (setup_vector_search_indexes lit db)) ''godzilla_index'') =
        Some (vector_field ''text_embedding'' n #
              map filter_field [''medical_specialty'', ''clinical_relevance_score'',
                                ''age_groups''])"
proof -
  let ?sample = "find_one metadata_not_exists (db ''medical_embeddings'')"
  from analyze_baseline_cases [of lit ?sample] show ?thesis
  proof (elim disjE exE conjE)
    fix out
    assume "analyze_existing_embeddings lit ?sample (medical_embeddings_index, godzilla_index) =
              (out, (medical_embeddings_index, godzilla_index))"
    then have "setup_vector_search_indexes lit db = \<lparr>printed = out, returned = unchanged_result\<rparr>"
      by (rule setup_unchanged)
    then show ?thesis
      by (auto simp add: unchanged_result_def fields_of_baseline)
  next
    fix n m g
    assume m: "set_numDimensions medical_embeddings_index n = Inr m"
      and g: "set_numDimensions godzilla_index n = Inr g"
      and a: "analyze_existing_embeddings lit ?sample (medical_embeddings_index, godzilla_index) =
              ([DimensionDetected n, UpdateNumDimensionsTo n, DefinitionsUpdated], (m, g))"
    from m have "fields_of m = vector_field ''embedding_vector'' n #
        map filter_field [''medical_specialty'', ''confidence_score'']"
      by (auto simp add: set_numDimensions_medical fields_of_def vector_field_def
            filter_field_def)
    moreover from g have "fields_of g = vector_field ''text_embedding'' n #
        map filter_field [''medical_specialty'', ''clinical_relevance_score'', ''age_groups'']"
      by (auto simp add: set_numDimensions_godzilla fields_of_def vector_field_def
            filter_field_def)
    ultimately show ?thesis using a
      by (auto simp add: setup_unfold)
  qed
qed

section \<open>The embedding key is absent (claims C3 and C10)\<close>

text \<open>
  Claim C3 says that a sample without the embedding field makes the inference fail with a
  MissingField error instead of being skipped silently. It does not hold of the script: on
  a sample that has no key \<^verbatim>\<open>embedding\<close> the guard of line 177 is false, nothing is
  printed, no exception is raised and the function returns the definitions as built.
\<close>

theorem C3_counterexample:
  "setup_vector_search_indexes literal_eval (medical_only [[(''_id'', PInt 1)]]) =
     \<lparr>printed = [], returned = unchanged_result\<rparr>"
  by (rule setup_unchanged)
     (simp add: find_one_def medical_only_def metadata_not_exists_def analyze_absent)

text \<open>
  Claim C3 as amended: for every sample document in which the key \<^verbatim>\<open>embedding\<close> is
  absent, the inference is skipped silently: no error is raised or printed, and the function
  returns the three definitions unchanged.
\<close>

theorem C3_missing_key_skips_silently:
  assumes "find_one metadata_not_exists (db ''medical_embeddings'') = Some d"
    and "map_of d ''embedding'' = None"
  shows "setup_vector_search_indexes lit db = \<lparr>printed = [], returned = unchanged_result\<rparr>"
  by (rule setup_unchanged) (simp add: assms analyze_absent)

text \<open>The amended claim C3 on a sample with an identifier and a text only.\<close>

theorem C3_witness:
  "find_one metadata_not_exists
     (medical_only [[(''_id'', PInt 7), (''text'', PStr ''fever'')]] ''medical_embeddings'') =
     Some [(''_id'', PInt 7), (''text'', PStr ''fever'')] \<and>
   map_of [(''_id'', PInt 7), (''text'', PStr ''fever'')] ''embedding'' = None \<and>
   setup_vector_search_indexes literal_eval
     (medical_only [[(''_id'', PInt 7), (''text'', PStr ''fever'')]]) =
     \<lparr>printed = [], returned = unchanged_result\<rparr>"
proof -
  have f: "find_one metadata_not_exists
     (medical_only [[(''_id'', PInt 7), (''text'', PStr ''fever'')]] ''medical_embeddings'') =
     Some [(''_id'', PInt 7), (''text'', PStr ''fever'')]"
    by (simp add: find_one_def medical_only_def metadata_not_exists_def)
  have a: "map_of [(''_id'', PInt 7), (''text'', PStr ''fever'')] ''embedding'' = None"
    by simp
  show ?thesis
    using f a
      C3_missing_key_skips_silently
        [where db = "medical_only [[(''_id'', PInt 7), (''text'', PStr ''fever'')]]"
           and lit = literal_eval, OF f a]
    by simp
qed

text \<open>
  Claim C10: the script reads the key \<^verbatim>\<open>embedding\<close> of the sample, which is neither of the
  vector paths declared in the index definitions (\<^verbatim>\<open>embedding_vector\<close> for the medical
  index, \<^verbatim>\<open>text_embedding\<close> for the godzilla index). For every sample without the key
  \<^verbatim>\<open>embedding\<close>, whatever it stores under the declared paths, no dimension is inferred and
  both vector definitions keep the placeholder 384.
\<close>

theorem C10_hardcoded_embedding_key:
  assumes "find_one metadata_not_exists (db ''medical_embeddings'') = Some d"
    and "map_of d ''embedding'' = None"
  shows "get_path medical_embeddings_index = Some (PStr ''embedding_vector'') \<and>
         get_path godzilla_index = Some (PStr ''text_embedding'') \<and>
         get_path medical_embeddings_index \<noteq> Some (PStr ''embedding'') \<and>
         get_path godzilla_index \<noteq> Some (PStr ''embedding'') \<and>
         printed (setup_vector_search_indexes lit db) = [] \<and>
         returned_numDimensions (setup_vector_search_indexes lit db) ''medical_embeddings_index''
           = Some (PInt 384) \<and>
         returned_numDimensions (setup_vector_search_indexes lit db) ''godzilla_index''
           = Some (PInt 384)"
proof -
  have "setup_vector_search_indexes lit db = \<lparr>printed = [], returned = unchanged_result\<rparr>"
    by (rule setup_unchanged) (simp add: assms analyze_absent)
  moreover have "get_path medical_embeddings_index = Some (PStr ''embedding_vector'')"
    by (simp add: get_path_def medical_embeddings_index_def)
  moreover have "get_path godzilla_index = Some (PStr ''text_embedding'')"
    by (simp add: get_path_def godzilla_index_def)
  ultimately show ?thesis
    by (simp add: returned_numDimensions_unchanged)
qed

text \<open>
  Claim C10 on a sample that stores a vector of length 3 under both declared paths and has
  no key \<^verbatim>\<open>embedding\<close>.
\<close>

theorem C10_witness:
  "find_one metadata_not_exists
     (medical_only [[(''_id'', PInt 1), (''embedding_vector'', PStr ''[1, 2, 3]''),
                     (''text_embedding'', PStr ''[1, 2, 3]'')]] ''medical_embeddings'') =
     Some [(''_id'', PInt 1), (''embedding_vector'', PStr ''[1, 2, 3]''),
           (''text_embedding'', PStr ''[1, 2, 3]'')] \<and>
   map_of [(''_id'', PInt 1), (''embedding_vector'', PStr ''[1, 2, 3]''),
           (''text_embedding'', PStr ''[1, 2, 3]'')] ''embedding'' = None \<and>
   printed (setup_vector_search_indexes literal_eval
     (medical_only [[(''_id'', PInt 1), (''embedding_vector'', PStr ''[1, 2, 3]''),
                     (''text_embedding'', PStr ''[1, 2, 3]'')]])) = [] \<and>
   returned_numDimensions (setup_vector_search_indexes literal_eval
     (medical_only [[(''_id'', PInt 1), (''embedding_vector'', PStr ''[1, 2, 3]''),
                     (''text_embedding'', PStr ''[1, 2, 3]'')]])) ''medical_embeddings_index''
     = Some (PInt 384) \<and>
   returned_numDimensions (setup_vector_search_indexes literal_eval
     (medical_only [[(''_id'', PInt 1), (''embedding_vector'', PStr ''[1, 2, 3]''),
                     (''text_embedding'', PStr ''[1, 2, 3]'')]])) ''godzilla_index''
     = Some (PInt 384)"
proof -
  let ?d = "[(''_id'', PInt 1), (''embedding_vector'', PStr ''[1, 2, 3]''),
             (''text_embedding'', PStr ''[1, 2, 3]'')]"
  have f: "find_one metadata_not_exists (medical_only [?d] ''medical_embeddings'') = Some ?d"
    by (simp add: find_one_def medical_only_def metadata_not_exists_def)
  have a: "map_of ?d ''embedding'' = None"
    by simp
  show ?thesis
    using f a
      C10_hardcoded_embedding_key [where db = "medical_only [?d]" and lit = literal_eval, OF f a]
    by simp
qed

section \<open>The embedding is not a string (claim C4)\<close>

text \<open>
  Claim C4 says that for a stored embedding that is a native numeric sequence the length of
  the sequence is the dimension and is applied to the index definition, 3 for
  \<^verbatim>\<open>[0.1, 0.2, 0.3]\<close>. It does not hold of the script: the branch for a value that is not
  a string (line 195) prints that the format is not recognized and assigns nothing, so the
  definitions keep 384.
\<close>

theorem C4_counterexample:
  "setup_vector_search_indexes literal_eval
     (medical_only [[(''embedding'', PList [PFloat 0.1, PFloat 0.2, PFloat 0.3])]]) =
     \<lparr>printed = [FormatNotRecognized], returned = unchanged_result\<rparr> \<and>
   returned_numDimensions
     (setup_vector_search_indexes literal_eval
        (medical_only [[(''embedding'', PList [PFloat 0.1, PFloat 0.2, PFloat 0.3])]]))
     ''medical_embeddings_index'' = Some (PInt 384)"
proof -
  have "setup_vector_search_indexes literal_eval
     (medical_only [[(''embedding'', PList [PFloat 0.1, PFloat 0.2, PFloat 0.3])]]) =
     \<lparr>printed = [FormatNotRecognized], returned = unchanged_result\<rparr>"
    by (rule setup_unchanged)
       (simp add: find_one_def medical_only_def metadata_not_exists_def analyze_not_str)
  then show ?thesis
    by (simp add: returned_numDimensions_unchanged)
qed

text \<open>
  Claim C4 as amended: for every sample whose stored embedding value is not a string (a
  native numeric sequence, for instance), the script reports that the embedding format is
  not recognized, infers no dimension and returns the three definitions unchanged, both
  vector definitions with the placeholder 384.
\<close>

theorem C4_native_value_not_recognized:
  assumes "find_one metadata_not_exists (db ''medical_embeddings'') = Some d"
    and "map_of d ''embedding'' = Some v"
    and "\<not> isinstance_str v"
  shows "setup_vector_search_indexes lit db =
           \<lparr>printed = [FormatNotRecognized], returned = unchanged_result\<rparr>"
  by (rule setup_unchanged) (simp add: assms(1) analyze_not_str [OF assms(2,3)])

text \<open>The amended claim C4 on a sample whose embedding is the native list \<^verbatim>\<open>[1, 2]\<close>.\<close>

theorem C4_witness:
  "find_one metadata_not_exists
     (medical_only [[(''embedding'', PList [PInt 1, PInt 2])]] ''medical_embeddings'') =
     Some [(''embedding'', PList [PInt 1, PInt 2])] \<and>
   map_of [(''embedding'', PList [PInt 1, PInt 2])] ''embedding'' = Some (PList [PInt 1, PInt 2]) \<and>
   \<not> isinstance_str (PList [PInt 1, PInt 2]) \<and>
   setup_vector_search_indexes literal_eval
     (medical_only [[(''embedding'', PList [PInt 1, PInt 2])]]) =
     \<lparr>printed = [FormatNotRecognized], returned = unchanged_result\<rparr>"
proof -
  let ?d = "[(''embedding'', PList [PInt 1, PInt 2])]"
  have f: "find_one metadata_not_exists (medical_only [?d] ''medical_embeddings'') = Some ?d"
    by (simp add: find_one_def medical_only_def metadata_not_exists_def)
  have a: "map_of ?d ''embedding'' = Some (PList [PInt 1, PInt 2])"
    by simp
  have n: "\<not> isinstance_str (PList [PInt 1, PInt 2])"
    by simp
  show ?thesis
    using f a n
      C4_native_value_not_recognized
        [where db = "medical_only [?d]" and lit = literal_eval, OF f a n]
    by simp
qed

section \<open>The embedding is a string (claims C2 and C5)\<close>

text \<open>
  Claim C2 says that every stored string that fails to parse as a literal sequence of numbers
  makes the inference fail, softly, and leaves the placeholder 384. It does not hold of the
  script for every such string: the script only asks for the length of whatever
  \<^verbatim>\<open>ast.literal_eval\<close> returns. The string \<^verbatim>\<open>['a', 'b']\<close> is not a sequence of numbers,
  yet it evaluates to a list of length 2, nothing fails, and 2 is written into both vector
  definitions.
\<close>

theorem C2_counterexample:
  "printed (setup_vector_search_indexes literal_eval
      (medical_only [[(''embedding'', PStr ''['a', 'b']'')]])) =
     [DimensionDetected 2, UpdateNumDimensionsTo 2, DefinitionsUpdated] \<and>
   returned_numDimensions (setup_vector_search_indexes literal_eval
      (medical_only [[(''embedding'', PStr ''['a', 'b']'')]])) ''medical_embeddings_index''
     = Some (PInt 2) \<and>
   returned_numDimensions (setup_vector_search_indexes literal_eval
      (medical_only [[(''embedding'', PStr ''['a', 'b']'')]])) ''godzilla_index''
     = Some (PInt 2)"
proof -
  let ?d = "[(''embedding'', PStr ''['a', 'b']'')]"
  have f: "find_one metadata_not_exists (medical_only [?d] ''medical_embeddings'') = Some ?d"
    by (simp add: find_one_def medical_only_def metadata_not_exists_def)
  have a: "map_of ?d ''embedding'' = Some (PStr ''['a', 'b']'')"
    by simp
  have l: "py_len (PList [PStr ''a'', PStr ''b'']) = Inr 2"
    by simp
  show ?thesis
    using setup_applied [where lit = literal_eval and db = "medical_only [?d]",
        OF f a literal_eval_examples(2) l]
    by simp
qed

text \<open>
  Claim C2 as amended: for every sample whose stored embedding is a string on which
  \<^verbatim>\<open>ast.literal_eval\<close> raises, or whose value has no length, the exception is caught and
  printed with its cause, the function still returns, and it returns the three definitions
  unchanged, both vector definitions with the placeholder 384.
\<close>

theorem C2_parse_failure_is_soft:
  assumes "find_one metadata_not_exists (db ''medical_embeddings'') = Some d"
    and "map_of d ''embedding'' = Some (PStr s)"
    and "lit s = Inl e \<or> (\<exists>v. lit s = Inr v \<and> py_len v = Inl e)"
  shows "setup_vector_search_indexes lit db =
           \<lparr>printed = [CouldNotParse e], returned = unchanged_result\<rparr> \<and>
         returned_numDimensions (setup_vector_search_indexes lit db) ''medical_embeddings_index''
           = Some (PInt 384) \<and>
         returned_numDimensions (setup_vector_search_indexes lit db) ''godzilla_index''
           = Some (PInt 384)"
  using setup_failure [where db = db and lit = lit, OF assms]
  by (simp add: returned_numDimensions_unchanged)

text \<open>The amended claim C2 on the stored string \<^verbatim>\<open>not-a-vector\<close>.\<close>

theorem C2_witness:
  "find_one metadata_not_exists
     (medical_only [[(''embedding'', PStr ''not-a-vector'')]] ''medical_embeddings'') =
     Some [(''embedding'', PStr ''not-a-vector'')] \<and>
   map_of [(''embedding'', PStr ''not-a-vector'')] ''embedding'' = Some (PStr ''not-a-vector'') \<and>
   literal_eval ''not-a-vector'' = Inl LiteralEvalError \<and>
   setup_vector_search_indexes literal_eval
     (medical_only [[(''embedding'', PStr ''not-a-vector'')]]) =
     \<lparr>printed = [CouldNotParse LiteralEvalError], returned = unchanged_result\<rparr> \<and>
   returned_numDimensions (setup_vector_search_indexes literal_eval
     (medical_only [[(''embedding'', PStr ''not-a-vector'')]])) ''medical_embeddings_index''
     = Some (PInt 384) \<and>
   returned_numDimensions (setup_vector_search_indexes literal_eval
     (medical_only [[(''embedding'', PStr ''not-a-vector'')]])) ''godzilla_index''
     = Some (PInt 384)"
proof -
  let ?d = "[(''embedding'', PStr ''not-a-vector'')]"
  have f: "find_one metadata_not_exists (medical_only [?d] ''medical_embeddings'') = Some ?d"
    by (simp add: find_one_def medical_only_def metadata_not_exists_def)
  have a: "map_of ?d ''embedding'' = Some (PStr ''not-a-vector'')"
    by simp
  have l: "literal_eval ''not-a-vector'' = Inl LiteralEvalError"
    by (simp add: literal_eval_simps)
  have h: "literal_eval ''not-a-vector'' = Inl LiteralEvalError \<or>
           (\<exists>v. literal_eval ''not-a-vector'' = Inr v \<and> py_len v = Inl LiteralEvalError)"
    using l by simp
  show ?thesis
    using f a l
      C2_parse_failure_is_soft
        [where db = "medical_only [?d]" and lit = literal_eval, OF f a h]
    by (simp add: returned_numDimensions_unchanged)
qed

text \<open>
  Claim C5 says that the inferred dimension is positive and that a value of length zero
  makes the inference fail with EmptyEmbedding instead of applying 0. It does not hold of
  the script, which has no such check: the stored string \<^verbatim>\<open>[]\<close> evaluates to the empty
  list and 0 is written into both vector definitions.
\<close>

theorem C5_counterexample:
  "printed (setup_vector_search_indexes literal_eval
      (medical_only [[(''embedding'', PStr ''[]'')]])) =
     [DimensionDetected 0, UpdateNumDimensionsTo 0, DefinitionsUpdated] \<and>
   returned_numDimensions (setup_vector_search_indexes literal_eval
      (medical_only [[(''embedding'', PStr ''[]'')]])) ''medical_embeddings_index''
     = Some (PInt 0) \<and>
   returned_numDimensions (setup_vector_search_indexes literal_eval
      (medical_only [[(''embedding'', PStr ''[]'')]])) ''godzilla_index''
     = Some (PInt 0)"
proof -
  let ?d = "[(''embedding'', PStr ''[]'')]"
  have f: "find_one metadata_not_exists (medical_only [?d] ''medical_embeddings'') = Some ?d"
    by (simp add: find_one_def medical_only_def metadata_not_exists_def)
  have a: "map_of ?d ''embedding'' = Some (PStr ''[]'')"
    by simp
  have l: "py_len (PList []) = Inr 0"
    by simp
  show ?thesis
    using setup_applied [where lit = literal_eval and db = "medical_only [?d]",
        OF f a literal_eval_examples(3) l]
    by simp
qed

text \<open>
  Claim C5 as amended: the inferred dimension is a non-negative integer, the length of the
  value the stored string evaluates to, and it is written into both vector definitions as
  it is, also when it is zero; there is no EmptyEmbedding failure.
\<close>

theorem C5_length_is_applied:
  assumes "find_one metadata_not_exists (db ''medical_embeddings'') = Some d"
    and "map_of d ''embedding'' = Some (PStr s)"
    and "lit s = Inr v"
    and "py_len v = Inr n"
  shows "0 \<le> n \<and>
         printed (setup_vector_search_indexes lit db) =
           [DimensionDetected n, UpdateNumDimensionsTo n, DefinitionsUpdated] \<and>
         returned_numDimensions (setup_vector_search_indexes lit db) ''medical_embeddings_index''
           = Some (PInt n) \<and>
         returned_numDimensions (setup_vector_search_indexes lit db) ''godzilla_index''
           = Some (PInt n)"
  using setup_applied [where db = db and lit = lit, OF assms] py_len_nonneg [OF assms(4)]
  by simp

text \<open>
  The amended claim C5 on the textual encoding \<^verbatim>\<open>[0.1, 0.2, 0.3, 0.4]\<close>, whose dimension
  is 4.
\<close>

theorem C5_witness:
  "find_one metadata_not_exists
     (medical_only [[(''embedding'', PStr ''[0.1, 0.2, 0.3, 0.4]'')]] ''medical_embeddings'') =
     Some [(''embedding'', PStr ''[0.1, 0.2, 0.3, 0.4]'')] \<and>
   map_of [(''embedding'', PStr ''[0.1, 0.2, 0.3, 0.4]'')] ''embedding'' =
     Some (PStr ''[0.1, 0.2, 0.3, 0.4]'') \<and>
   literal_eval ''[0.1, 0.2, 0.3, 0.4]'' =
     Inr (PList [PFloat 0.1, PFloat 0.2, PFloat 0.3, PFloat 0.4]) \<and>
   py_len (PList [PFloat 0.1, PFloat 0.2, PFloat 0.3, PFloat 0.4]) = Inr 4 \<and>
   printed (setup_vector_search_indexes literal_eval
      (medical_only [[(''embedding'', PStr ''[0.1, 0.2, 0.3, 0.4]'')]])) =
     [DimensionDetected 4, UpdateNumDimensionsTo 4, DefinitionsUpdated] \<and>
   returned_numDimensions (setup_vector_search_indexes literal_eval
      (medical_only [[(''embedding'', PStr ''[0.1, 0.2, 0.3, 0.4]'')]]))
      ''medical_embeddings_index'' = Some (PInt 4) \<and>
   returned_numDimensions (setup_vector_search_indexes literal_eval
      (medical_only [[(''embedding'', PStr ''[0.1, 0.2, 0.3, 0.4]'')]]))
      ''godzilla_index'' = Some (PInt 4)"
proof -
  let ?d = "[(''embedding'', PStr ''[0.1, 0.2, 0.3, 0.4]'')]"
  have f: "find_one metadata_not_exists (medical_only [?d] ''medical_embeddings'') = Some ?d"
    by (simp add: find_one_def medical_only_def metadata_not_exists_def)
  have a: "map_of ?d ''embedding'' = Some (PStr ''[0.1, 0.2, 0.3, 0.4]'')"
    by simp
  have l: "py_len (PList [PFloat 0.1, PFloat 0.2, PFloat 0.3, PFloat 0.4]) = Inr 4"
    by simp
  show ?thesis
    using f a l literal_eval_examples(6)
      C5_length_is_applied
        [where db = "medical_only [?d]" and lit = literal_eval,
         OF f a literal_eval_examples(6) l]
    by simp
qed

section \<open>Which collection is sampled (claim C1)\<close>

text \<open>
  Claim C1 says that each vector-indexed collection is sampled and that each index
  definition is corrected from the sample of its own collection. It does not hold of the
  script, which samples \<^verbatim>\<open>medical_embeddings\<close> only and writes the dimension found there
  into the godzilla definition as well: with vectors of length 3 in \<^verbatim>\<open>medical_embeddings\<close>
  and of length 2 in \<^verbatim>\<open>godzilla_medical_dataset\<close>, the godzilla index gets 3, although the
  same inference run on the godzilla collection gives 2.
\<close>

theorem C1_counterexample:
  "returned_numDimensions (setup_vector_search_indexes literal_eval two_collections)
     ''godzilla_index'' = Some (PInt 3) \<and>
   returned_numDimensions
     (setup_vector_search_indexes literal_eval
        (medical_only (two_collections ''godzilla_medical_dataset'')))
     ''godzilla_index'' = Some (PInt 2)"
proof -
  let ?d = "[(''_id'', PInt 2), (''embedding'', PStr ''[1, 2, 3]'')]"
  let ?g = "[(''_id'', PInt 1), (''embedding'', PStr ''[1, 2]''),
             (''text_embedding'', PStr ''[1, 2]'')]"
  have f: "find_one metadata_not_exists (two_collections ''medical_embeddings'') = Some ?d"
    by (simp add: find_one_def two_collections_def metadata_not_exists_def)
  have a: "map_of ?d ''embedding'' = Some (PStr ''[1, 2, 3]'')"
    by simp
  have l: "py_len (PList [PInt 1, PInt 2, PInt 3]) = Inr 3"
    by simp
  have g: "two_collections ''godzilla_medical_dataset'' = [?g]"
    by (simp add: two_collections_def)
  have f': "find_one metadata_not_exists (medical_only [?g] ''medical_embeddings'') = Some ?g"
    by (simp add: find_one_def medical_only_def metadata_not_exists_def)
  have a': "map_of ?g ''embedding'' = Some (PStr ''[1, 2]'')"
    by simp
  have l': "py_len (PList [PInt 1, PInt 2]) = Inr 2"
    by simp
  show ?thesis
    using setup_applied(3) [where lit = literal_eval and db = two_collections,
        OF f a literal_eval_examples(5) l]
      setup_applied(3) [where lit = literal_eval and db = "medical_only [?g]",
        OF f' a' literal_eval_examples(4) l']
    by (simp add: g)
qed

text \<open>
  Claim C1 as amended: a run draws exactly one sample, the first record of
  \<^verbatim>\<open>medical_embeddings\<close> that does not carry the marker field \<^verbatim>\<open>_metadata\<close>; nothing else
  of the database has any effect on the result; the medical and the godzilla definition
  always carry the same dimension; and when the embedding string of that sample evaluates to
  a value of length \<open>n\<close>, then \<open>n\<close> is reported and written into both vector index
  definitions.
\<close>

theorem C1_one_sample_from_medical_embeddings:
  "setup_vector_search_indexes lit db =
     setup_vector_search_indexes lit
       (medical_only
          (case find_one metadata_not_exists (db ''medical_embeddings'') of
             None \<Rightarrow> [] | Some d \<Rightarrow> [d])) \<and>
   returned_numDimensions (setup_vector_search_indexes lit db) ''godzilla_index'' =
   returned_numDimensions (setup_vector_search_indexes lit db) ''medical_embeddings_index'' \<and>
   (find_one metadata_not_exists (db ''medical_embeddings'') = Some d \<and>
    map_of d ''embedding'' = Some (PStr s) \<and> lit s = Inr v \<and> py_len v = Inr n \<longrightarrow>
    printed (setup_vector_search_indexes lit db) =
      [DimensionDetected n, UpdateNumDimensionsTo n, DefinitionsUpdated] \<and>
    returned_numDimensions (setup_vector_search_indexes lit db) ''medical_embeddings_index''
      = Some (PInt n) \<and>
    returned_numDimensions (setup_vector_search_indexes lit db) ''godzilla_index''
      = Some (PInt n))"
proof (intro conjI impI)
  show "setup_vector_search_indexes lit db =
     setup_vector_search_indexes lit
       (medical_only
          (case find_one metadata_not_exists (db ''medical_embeddings'') of
             None \<Rightarrow> [] | Some d \<Rightarrow> [d]))"
    by (simp only: setup_unfold find_one_restricted)
  show "returned_numDimensions (setup_vector_search_indexes lit db) ''godzilla_index'' =
    returned_numDimensions (setup_vector_search_indexes lit db) ''medical_embeddings_index''"
    by (rule returned_numDimensions_equal)
next
  assume h: "find_one metadata_not_exists (db ''medical_embeddings'') = Some d \<and>
    map_of d ''embedding'' = Some (PStr s) \<and> lit s = Inr v \<and> py_len v = Inr n"
  then have f: "find_one metadata_not_exists (db ''medical_embeddings'') = Some d"
    and a: "map_of d ''embedding'' = Some (PStr s)"
    and l: "lit s = Inr v" and k: "py_len v = Inr n"
    by simp_all
  note ap = setup_applied [where lit = lit and db = db, OF f a l k]
  show "printed (setup_vector_search_indexes lit db) =
      [DimensionDetected n, UpdateNumDimensionsTo n, DefinitionsUpdated]"
    by (rule ap(1))
  show "returned_numDimensions (setup_vector_search_indexes lit db) ''medical_embeddings_index''
      = Some (PInt n)"
    by (rule ap(2))
  show "returned_numDimensions (setup_vector_search_indexes lit db) ''godzilla_index''
      = Some (PInt n)"
    by (rule ap(3))
qed

text \<open>
  The amended claim C1 on the database with two collections: the sample is the second
  record of \<^verbatim>\<open>medical_embeddings\<close>, its vector has length 3, and 3 is written into both
  vector definitions.
\<close>

theorem C1_witness:
  "find_one metadata_not_exists (two_collections ''medical_embeddings'') =
     Some [(''_id'', PInt 2), (''embedding'', PStr ''[1, 2, 3]'')] \<and>
   map_of [(''_id'', PInt 2), (''embedding'', PStr ''[1, 2, 3]'')] ''embedding'' =
     Some (PStr ''[1, 2, 3]'') \<and>
   literal_eval ''[1, 2, 3]'' = Inr (PList [PInt 1, PInt 2, PInt 3]) \<and>
   py_len (PList [PInt 1, PInt 2, PInt 3]) = Inr 3 \<and>
   printed (setup_vector_search_indexes literal_eval two_collections) =
     [DimensionDetected 3, UpdateNumDimensionsTo 3, DefinitionsUpdated] \<and>
   returned_numDimensions (setup_vector_search_indexes literal_eval two_collections)
     ''medical_embeddings_index'' = Some (PInt 3) \<and>
   returned_numDimensions (setup_vector_search_indexes literal_eval two_collections)
     ''godzilla_index'' = Some (PInt 3)"
proof -
  let ?d = "[(''_id'', PInt 2), (''embedding'', PStr ''[1, 2, 3]'')]"
  have f: "find_one metadata_not_exists (two_collections ''medical_embeddings'') = Some ?d"
    by (simp add: find_one_def two_collections_def metadata_not_exists_def)
  have a: "map_of ?d ''embedding'' = Some (PStr ''[1, 2, 3]'')"
    by simp
  have l: "literal_eval ''[1, 2, 3]'' = Inr (PList [PInt 1, PInt 2, PInt 3])"
    by (simp add: literal_eval_simps)
  have k: "py_len (PList [PInt 1, PInt 2, PInt 3]) = Inr 3"
    by simp
  from C1_one_sample_from_medical_embeddings
    [where lit = literal_eval and db = two_collections and d = ?d and s = "''[1, 2, 3]''"
       and v = "PList [PInt 1, PInt 2, PInt 3]" and n = 3]
  have "printed (setup_vector_search_indexes literal_eval two_collections) =
      [DimensionDetected 3, UpdateNumDimensionsTo 3, DefinitionsUpdated] \<and>
    returned_numDimensions (setup_vector_search_indexes literal_eval two_collections)
      ''medical_embeddings_index'' = Some (PInt 3) \<and>
    returned_numDimensions (setup_vector_search_indexes literal_eval two_collections)
      ''godzilla_index'' = Some (PInt 3)"
    using f a l k by blast
  with f a l k show ?thesis by blast
qed

section \<open>The returned dictionary (claim C6)\<close>

text \<open>
  Claim C6 says that the returned artifact always has the three keys and that an entry that
  keeps an unrefined placeholder carries an observable status or reason. The second half
  does not hold of the script: a run that finds no sample and infers nothing returns the
  very dictionary that a run returns whose sample is a vector of 384 numbers and validates
  the dimension 384. The two runs differ in what they print only.
\<close>

theorem C6_counterexample:
  "printed (setup_vector_search_indexes literal_eval (medical_only [])) = [] \<and>
   printed (setup_vector_search_indexes literal_eval
      (medical_only [[(''embedding'', PStr zeros_384)]])) =
     [DimensionDetected 384, UpdateNumDimensionsTo 384, DefinitionsUpdated] \<and>
   returned (setup_vector_search_indexes literal_eval (medical_only [])) =
   returned (setup_vector_search_indexes literal_eval
      (medical_only [[(''embedding'', PStr zeros_384)]]))"
  using setup_zeros_384(1) returned_384_is_unchanged [OF setup_zeros_384(2)]
  by (simp add: setup_empty_database)

text \<open>
  Claim C6 as amended: for every reconciliation outcome the returned artifact is a mapping
  with exactly the keys \<^verbatim>\<open>medical_embeddings_index\<close>, \<^verbatim>\<open>godzilla_index\<close> and
  \<^verbatim>\<open>drug_search_index\<close>, in this order; its entries carry no status or reason: whenever the
  medical entry carries the dimension 384, refined or not, the artifact is the dictionary of
  the three definitions as built.
\<close>

theorem C6_three_keys_and_no_status:
  "map fst (returned (setup_vector_search_indexes lit db)) =
     [''medical_embeddings_index'', ''godzilla_index'', ''drug_search_index''] \<and>
   (returned_numDimensions (setup_vector_search_indexes lit db) ''medical_embeddings_index''
      = Some (PInt 384) \<longrightarrow>
    returned (setup_vector_search_indexes lit db) = unchanged_result)"
  using returned_keys returned_384_is_unchanged by blast

text \<open>
  The amended claim C6 on a run that infers the dimension 384 from a stored vector of 384
  zeros.
\<close>

theorem C6_witness:
  "returned_numDimensions (setup_vector_search_indexes literal_eval
      (medical_only [[(''embedding'', PStr zeros_384)]])) ''medical_embeddings_index''
     = Some (PInt 384) \<and>
   map fst (returned (setup_vector_search_indexes literal_eval
      (medical_only [[(''embedding'', PStr zeros_384)]]))) =
     [''medical_embeddings_index'', ''godzilla_index'', ''drug_search_index''] \<and>
   returned (setup_vector_search_indexes literal_eval
      (medical_only [[(''embedding'', PStr zeros_384)]])) = unchanged_result"
  using setup_zeros_384(2)
    C6_three_keys_and_no_status
      [where lit = literal_eval and db = "medical_only [[(''embedding'', PStr zeros_384)]]"]
  by (simp add: unchanged_result_def)

section \<open>Idempotence (claim C7)\<close>

text \<open>
  Claim C7: running the analysis a second time on the same sample, starting from the
  definitions the first run produced, prints the same and yields the same definitions, in
  particular the same dimensions; and assigning a dimension to a definition that already
  carries it leaves the definition as it is. The first statement holds for any two starting
  definitions, not only for those the script builds.
\<close>

theorem C7_reconciler_idempotent:
  "analyze_existing_embeddings lit sample (snd (analyze_existing_embeddings lit sample st)) =
     analyze_existing_embeddings lit sample st \<and>
   (set_numDimensions ix n = Inr ix' \<longrightarrow> set_numDimensions ix' n = Inr ix')"
proof
  obtain out st' where a: "analyze_existing_embeddings lit sample st = (out, st')"
    by (cases "analyze_existing_embeddings lit sample st")
  from analyze_idem [OF a] a
  show "analyze_existing_embeddings lit sample (snd (analyze_existing_embeddings lit sample st)) =
     analyze_existing_embeddings lit sample st"
    by simp
  show "set_numDimensions ix n = Inr ix' \<longrightarrow> set_numDimensions ix' n = Inr ix'"
    by (simp add: set_numDimensions_idem)
qed

text \<open>
  Claim C7 on the godzilla definition with dimension 3, and on the analysis of a sample
  whose embedding is the string \<^verbatim>\<open>[1, 2, 3]\<close>.
\<close>

theorem C7_witness:
  "set_numDimensions godzilla_index 3 =
     Inr (godzilla_index\<lparr>definition' := Fields
            (vector_field ''text_embedding'' 3 #
             map filter_field [''medical_specialty'', ''clinical_relevance_score'',
                               ''age_groups''])\<rparr>) \<and>
   set_numDimensions
     (godzilla_index\<lparr>definition' := Fields
            (vector_field ''text_embedding'' 3 #
             map filter_field [''medical_specialty'', ''clinical_relevance_score'',
                               ''age_groups''])\<rparr>) 3 =
     Inr (godzilla_index\<lparr>definition' := Fields
            (vector_field ''text_embedding'' 3 #
             map filter_field [''medical_specialty'', ''clinical_relevance_score'',
                               ''age_groups''])\<rparr>) \<and>
   analyze_existing_embeddings literal_eval (Some [(''embedding'', PStr ''[1, 2, 3]'')])
     (snd (analyze_existing_embeddings literal_eval (Some [(''embedding'', PStr ''[1, 2, 3]'')])
             (medical_embeddings_index, godzilla_index))) =
   analyze_existing_embeddings literal_eval (Some [(''embedding'', PStr ''[1, 2, 3]'')])
     (medical_embeddings_index, godzilla_index)"
proof -
  let ?g = "godzilla_index\<lparr>definition' := Fields
            (vector_field ''text_embedding'' 3 #
             map filter_field [''medical_specialty'', ''clinical_relevance_score'',
                               ''age_groups''])\<rparr>"
  have s: "set_numDimensions godzilla_index 3 = Inr ?g"
    by (simp add: set_numDimensions_godzilla vector_field_def filter_field_def)
  from C7_reconciler_idempotent
    [where ix = godzilla_index and n = 3 and ix' = ?g and lit = literal_eval
       and sample = "Some [(''embedding'', PStr ''[1, 2, 3]'')]"
       and st = "(medical_embeddings_index, godzilla_index)"] s
  show ?thesis by simp
qed

section \<open>The definitions as built (claims C8 and C9)\<close>

text \<open>
  Claim C8: each of the two vector-search index definitions consists of exactly one vector
  field, whose similarity is cosine, followed by one filter field for each of its filter
  paths, and of no other field. This holds of the definitions as built and of the
  definitions every run returns, where only the dimension of the vector field may differ.
\<close>

theorem C8_vector_index_fields:
  "fields_of medical_embeddings_index =
     vector_field ''embedding_vector'' 384 #
     map filter_field [''medical_specialty'', ''confidence_score''] \<and>
   fields_of godzilla_index =
     vector_field ''text_embedding'' 384 #
     map filter_field [''medical_specialty'', ''clinical_relevance_score'', ''age_groups''] \<and>
   map (\<lambda>f. map_of f ''similarity'') (filter is_vector_field (fields_of medical_embeddings_index))
     = [Some (PStr ''cosine'')] \<and>
   map (\<lambda>f. map_of f ''similarity'') (filter is_vector_field (fields_of godzilla_index))
     = [Some (PStr ''cosine'')] \<and>
   map (\<lambda>f. map_of f ''path'') (filter is_filter_field (fields_of medical_embeddings_index))
     = [Some (PStr ''medical_specialty''), Some (PStr ''confidence_score'')] \<and>
   map (\<lambda>f. map_of f ''path'') (filter is_filter_field (fields_of godzilla_index))
     = [Some (PStr ''medical_specialty''), Some (PStr ''clinical_relevance_score''),
        Some (PStr ''age_groups'')] \<and>
   length (fields_of medical_embeddings_index) = 1 + 2 \<and>
   length (fields_of godzilla_index) = 1 + 3 \<and>
   (\<exists>n. map_option fields_of
          (map_of (returned (setup_vector_search_indexes lit db)) ''medical_embeddings_index'') =
        Some (vector_field ''embedding_vector'' n #
              map filter_field [''medical_specialty'', ''confidence_score'']) \<and>
       map_option fields_of
          (map_of (returned (setup_vector_search_indexes lit db)) ''godzilla_index'') =
        Some (vector_field ''text_embedding'' n #
              map filter_field [''medical_specialty'', ''clinical_relevance_score'',
                                ''age_groups'']))"
  using returned_fields [of lit db]
  by (simp add: fields_of_baseline field_shapes)

text \<open>
  Claim C9: the text-search index definition has dynamic mapping switched off and one field
  entry for each field name, in the order in which the names are listed; a field with an
  analyzer is a string field with that analyzer, a field without one is a plain string field
  with no analyzer key. No run changes this definition.
\<close>

theorem C9_text_index_fields:
  "dynamic_of drug_search_index = Some False \<and>
   mapping_fields_of drug_search_index =
     map (\<lambda>(k, a). (k, text_field a))
       [(''drug_name'', Some ''lucene.standard''),
        (''generic_name'', Some ''lucene.standard''),
        (''indication'', Some ''lucene.standard''),
        (''age_group'', None),
        (''route'', None)] \<and>
   map fst (mapping_fields_of drug_search_index) =
     [''drug_name'', ''generic_name'', ''indication'', ''age_group'', ''route''] \<and>
   distinct (map fst (mapping_fields_of drug_search_index)) \<and>
   map_of (mapping_fields_of drug_search_index) ''age_group'' = Some [(''type'', PStr ''string'')] \<and>
   map_of (mapping_fields_of drug_search_index) ''route'' = Some [(''type'', PStr ''string'')] \<and>
   map_of (returned (setup_vector_search_indexes lit db)) ''drug_search_index'' =
     Some drug_search_index"
proof -
  have "map_of (returned (setup_vector_search_indexes lit db)) ''drug_search_index'' =
     Some drug_search_index"
    by (simp add: setup_unfold split: prod.split)
  then show ?thesis
    by (simp add: dynamic_of_def mapping_fields_of_def drug_search_index_def)
qed

end
